theory Spec2Isabelle
  imports Main "HOL-Library.Sublist"
begin

section \<open>The Radarr adapter of Overseerr (server/api/radarr.ts)\<close>

text \<open>
  A shallow embedding of the class \<open>RadarrAPI\<close>. Interfaces are records, thrown errors
  are the left summand of a sum type, and every effect of a method (the requests it sends
  through \<open>this.axios\<close>, the lines it hands to \<open>logger\<close>) is written into an explicit
  adapter state that the method returns updated.

  Several interfaces of the source share field names (\<open>id\<close>, \<open>title\<close>, \<open>tmdbId\<close>, ...).
  A record field is a constant of the theory, so each record prefixes its fields:
  \<open>m_\<close> for \<open>RadarrMovie\<close>, \<open>o_\<close> for \<open>RadarrMovieOptions\<close>, \<open>b_\<close> for the bodies of
  write requests, \<open>p_\<close> for \<open>RadarrProfile\<close>, \<open>q_\<close> for \<open>QueueItem\<close>, \<open>qr_\<close> for
  \<open>QueueResponse\<close> and \<open>s_\<close> for \<open>RadarrSettings\<close>.
\<close>

subsection \<open>Numbers and strings of the source language\<close>

text \<open>
  The numbers the adapter handles are identifiers, years and ports: integers, modelled as
  \<open>int\<close>. \<open>toString\<close> is the decimal text that \<open>Number.prototype.toString\<close> and a
  template literal produce for an integer (below \<open>10^21\<close> in magnitude, where the source
  language switches to exponent notation).
\<close>

fun digit_chars :: "nat \<Rightarrow> string" where
  "digit_chars n =
     (if n < 10 then [''0123456789'' ! n]
      else digit_chars (n div 10) @ [''0123456789'' ! (n mod 10)])"

declare digit_chars.simps [simp del]

definition toString :: "int \<Rightarrow> string" where
  "toString n = (if n < 0 then CHR ''-'' # digit_chars (nat (- n)) else digit_chars (nat n))"

text \<open>
  A template literal \<open>`${x}`\<close> over an optional string: an absent value (\<open>undefined\<close>) is
  interpolated as the text \<open>undefined\<close>.
\<close>

definition interpolate :: "string option \<Rightarrow> string" where
  "interpolate v = (case v of None \<Rightarrow> ''undefined'' | Some s \<Rightarrow> s)"

text \<open>
  Truthiness of a number that the response may lack: \<open>undefined\<close> (the field is absent)
  and \<open>0\<close> are falsy, every other integer is truthy.
\<close>

definition truthy :: "int option \<Rightarrow> bool" where
  "truthy v = (case v of None \<Rightarrow> False | Some n \<Rightarrow> n \<noteq> 0)"

subsection \<open>Interfaces\<close>

record RadarrMovieOptions =
  o_title :: string
  o_qualityProfileId :: int
  o_minimumAvailability :: string
  o_profileId :: int
  o_year :: int
  o_rootFolderPath :: string
  o_tmdbId :: int
  o_monitored :: "bool option"
  o_searchNow :: "bool option"

text \<open>
  \<open>RadarrMovie\<close>. The interface declares \<open>id: number\<close>; the record is parsed from the
  service's JSON, which may carry no \<open>id\<close>, and the adapter tests the field for
  truthiness. So \<open>m_id\<close> is optional, \<open>None\<close> standing for a record without the field.
\<close>

record RadarrMovie =
  m_id :: "int option"
  m_title :: string
  m_isAvailable :: bool
  m_monitored :: bool
  m_tmdbId :: int
  m_imdbId :: string
  m_titleSlug :: string
  m_folderName :: string
  m_path :: string
  m_profileId :: int
  m_qualityProfileId :: int
  m_added :: string
  m_downloaded :: bool
  m_hasFile :: bool

record RadarrProfile =
  p_id :: int
  p_name :: string

record QueueItem =
  q_movieId :: int
  q_size :: int
  q_title :: string
  q_sizeleft :: int
  q_timeleft :: string
  q_estimatedCompletionTime :: string
  q_status :: string
  q_trackedDownloadStatus :: string
  q_trackedDownloadState :: string
  q_downloadId :: string
  q_protocol :: string
  q_downloadClient :: string
  q_indexer :: string
  q_id :: int

record QueueResponse =
  qr_page :: int
  qr_pageSize :: int
  qr_sortKey :: string
  qr_sortDirection :: string
  qr_totalRecords :: int
  qr_records :: "QueueItem list"

text \<open>
  \<open>RadarrSettings\<close> is declared in server/lib/settings.ts; \<open>buildRadarrUrl\<close> reads four of
  its fields, of which \<open>baseUrl\<close> is optional.
\<close>

record RadarrSettings =
  s_useSsl :: bool
  s_hostname :: string
  s_port :: int
  s_baseUrl :: "string option"

subsection \<open>buildRadarrUrl\<close>

definition buildRadarrUrl :: "RadarrSettings \<Rightarrow> string option \<Rightarrow> string" where
  "buildRadarrUrl radarrSettings path =
     (if s_useSsl radarrSettings then ''https'' else ''http'') @ ''://'' @
     s_hostname radarrSettings @ '':'' @ toString (s_port radarrSettings) @
     (case s_baseUrl radarrSettings of None \<Rightarrow> '''' | Some b \<Rightarrow> b) @
     interpolate path"

subsection \<open>Errors, requests and the adapter state\<close>

text \<open>
  A thrown \<open>Error\<close> is its message. A request that \<open>this.axios\<close> rejects (no answer, or
  an answer outside 2xx) is such an error too.
\<close>

datatype error = Error (message: string)

text \<open>
  The bodies of the two write requests. A create (POST) sends the object literal of
  lines 200-211. An update (PUT) sends the resolved movie spread under the same
  attributes (lines 157-169): the attributes overwrite the movie's \<open>title\<close>,
  \<open>qualityProfileId\<close>, \<open>profileId\<close>, \<open>titleSlug\<close>, \<open>tmdbId\<close> and \<open>monitored\<close>, and the
  movie's remaining fields are sent as they were resolved.
\<close>

record AddOptions =
  searchForMovie :: "bool option"

record MovieCreateBody =
  b_title :: string
  b_qualityProfileId :: int
  b_profileId :: int
  b_titleSlug :: string
  b_minimumAvailability :: string
  b_tmdbId :: int
  b_year :: int
  b_rootFolderPath :: string
  b_monitored :: "bool option"
  b_addOptions :: AddOptions

record MovieUpdateBody = MovieCreateBody +
  b_id :: "int option"
  b_isAvailable :: bool
  b_imdbId :: string
  b_folderName :: string
  b_path :: string
  b_added :: string
  b_downloaded :: bool
  b_hasFile :: bool

type_synonym params = "(string \<times> string) list"

datatype request =
    Get string params
  | Put string MovieUpdateBody
  | Post string MovieCreateBody

fun is_write :: "request \<Rightarrow> bool" where
  "is_write (Get url ps) = False"
| "is_write (Put url b) = True"
| "is_write (Post url b) = True"

text \<open>
  The external service, as \<open>this.axios\<close> presents it: one answer per request, either a
  rejection or the parsed body at the type the call site instantiates (\<open>axios.get<T>\<close>,
  \<open>axios.put<T>\<close>, \<open>axios.post<T>\<close>). The service is stateful and outside the adapter's
  control, so every answer may depend on, and change, a state \<open>'w\<close> of the world.
\<close>

record 'w transport =
  get_movie_list :: "string \<Rightarrow> params \<Rightarrow> 'w \<Rightarrow> (error + RadarrMovie list) \<times> 'w"
  get_profile_list :: "string \<Rightarrow> params \<Rightarrow> 'w \<Rightarrow> (error + RadarrProfile list) \<times> 'w"
  get_queue_response :: "string \<Rightarrow> params \<Rightarrow> 'w \<Rightarrow> (error + QueueResponse) \<times> 'w"
  put_movie :: "string \<Rightarrow> MovieUpdateBody \<Rightarrow> 'w \<Rightarrow> (error + RadarrMovie) \<times> 'w"
  post_movie :: "string \<Rightarrow> MovieCreateBody \<Rightarrow> 'w \<Rightarrow> (error + RadarrMovie) \<times> 'w"

datatype level = Info | Debug | Err

text \<open>
  The adapter state: the world behind the transport, the requests sent so far (oldest
  first), the lines logged so far (level and message; the metadata object of a log call
  is not modelled), and the response cache.

  Modelled from the spec: the cache store (server/lib/cache.ts) is not among the sources.
  The spec, section 2: a keyed store mapping a cache key to a value and its expiry; 4.1:
  the key is computed from path and parameters.
\<close>

type_synonym cache_key = "string \<times> params"

record 'w adapter =
  world :: 'w
  requests :: "request list"
  logs :: "(level \<times> string) list"
  cache :: "cache_key \<Rightarrow> (RadarrProfile list \<times> nat) option"

definition log :: "level \<Rightarrow> string \<Rightarrow> 'w adapter \<Rightarrow> 'w adapter" where
  "log l msg st = st\<lparr>logs := logs st @ [(l, msg)]\<rparr>"

definition axios_get_movies ::
  "'w transport \<Rightarrow> string \<Rightarrow> params \<Rightarrow> 'w adapter \<Rightarrow> (error + RadarrMovie list) \<times> 'w adapter" where
  "axios_get_movies tr url ps st =
     (case get_movie_list tr url ps (world st) of
        (r, w) \<Rightarrow> (r, st\<lparr>world := w, requests := requests st @ [Get url ps]\<rparr>))"

definition axios_get_profiles ::
  "'w transport \<Rightarrow> string \<Rightarrow> params \<Rightarrow> 'w adapter \<Rightarrow> (error + RadarrProfile list) \<times> 'w adapter" where
  "axios_get_profiles tr url ps st =
     (case get_profile_list tr url ps (world st) of
        (r, w) \<Rightarrow> (r, st\<lparr>world := w, requests := requests st @ [Get url ps]\<rparr>))"

definition axios_get_queue ::
  "'w transport \<Rightarrow> string \<Rightarrow> params \<Rightarrow> 'w adapter \<Rightarrow> (error + QueueResponse) \<times> 'w adapter" where
  "axios_get_queue tr url ps st =
     (case get_queue_response tr url ps (world st) of
        (r, w) \<Rightarrow> (r, st\<lparr>world := w, requests := requests st @ [Get url ps]\<rparr>))"

definition axios_put ::
  "'w transport \<Rightarrow> string \<Rightarrow> MovieUpdateBody \<Rightarrow> 'w adapter \<Rightarrow> (error + RadarrMovie) \<times> 'w adapter" where
  "axios_put tr url body st =
     (case put_movie tr url body (world st) of
        (r, w) \<Rightarrow> (r, st\<lparr>world := w, requests := requests st @ [Put url body]\<rparr>))"

definition axios_post ::
  "'w transport \<Rightarrow> string \<Rightarrow> MovieCreateBody \<Rightarrow> 'w adapter \<Rightarrow> (error + RadarrMovie) \<times> 'w adapter" where
  "axios_post tr url body st =
     (case post_movie tr url body (world st) of
        (r, w) \<Rightarrow> (r, st\<lparr>world := w, requests := requests st @ [Post url body]\<rparr>))"

subsection \<open>getMovieByTmdbId\<close>

text \<open>
  \<open>response.data[0]\<close> is a movie object (truthy) when the array has an element and
  \<open>undefined\<close> when it is empty. The \<open>catch\<close> receives both the rejection of the request
  and the error thrown in the \<open>try\<close> block, logs, and throws \<open>Movie not found\<close>.
\<close>

definition lookup_term :: "int \<Rightarrow> params" where
  "lookup_term i = [(''term'', ''tmdb:'' @ toString i)]"

definition getMovieByTmdbId_try ::
  "'w transport \<Rightarrow> int \<Rightarrow> 'w adapter \<Rightarrow> (error + RadarrMovie) \<times> 'w adapter" where
  "getMovieByTmdbId_try tr i st =
     (case axios_get_movies tr ''/movie/lookup'' (lookup_term i) st of
        (Inl e, st1) \<Rightarrow> (Inl e, st1)
      | (Inr data, st1) \<Rightarrow>
          (case data of
             [] \<Rightarrow> (Inl (Error ''Movie not found''), st1)
           | m # rest \<Rightarrow> (Inr m, st1)))"

definition getMovieByTmdbId ::
  "'w transport \<Rightarrow> int \<Rightarrow> 'w adapter \<Rightarrow> (error + RadarrMovie) \<times> 'w adapter" where
  "getMovieByTmdbId tr i st =
     (case getMovieByTmdbId_try tr i st of
        (Inl e, st1) \<Rightarrow>
          (Inl (Error ''Movie not found''), log Err ''Error retrieving movie by TMDb ID'' st1)
      | (Inr m, st1) \<Rightarrow> (Inr m, st1))"

subsection \<open>addMovie\<close>

definition create_body :: "RadarrMovieOptions \<Rightarrow> MovieCreateBody" where
  "create_body options =
     \<lparr> b_title = o_title options,
       b_qualityProfileId = o_qualityProfileId options,
       b_profileId = o_profileId options,
       b_titleSlug = toString (o_tmdbId options),
       b_minimumAvailability = o_minimumAvailability options,
       b_tmdbId = o_tmdbId options,
       b_year = o_year options,
       b_rootFolderPath = o_rootFolderPath options,
       b_monitored = o_monitored options,
       b_addOptions = \<lparr> searchForMovie = o_searchNow options \<rparr> \<rparr>"

definition update_body :: "RadarrMovie \<Rightarrow> RadarrMovieOptions \<Rightarrow> MovieUpdateBody" where
  "update_body movie options =
     \<lparr> b_title = o_title options,
       b_qualityProfileId = o_qualityProfileId options,
       b_profileId = o_profileId options,
       b_titleSlug = toString (o_tmdbId options),
       b_minimumAvailability = o_minimumAvailability options,
       b_tmdbId = o_tmdbId options,
       b_year = o_year options,
       b_rootFolderPath = o_rootFolderPath options,
       b_monitored = o_monitored options,
       b_addOptions = \<lparr> searchForMovie = o_searchNow options \<rparr>,
       b_id = m_id movie,
       b_isAvailable = m_isAvailable movie,
       b_imdbId = m_imdbId movie,
       b_folderName = m_folderName movie,
       b_path = m_path movie,
       b_added = m_added movie,
       b_downloaded = m_downloaded movie,
       b_hasFile = m_hasFile movie \<rparr>"

text \<open>The \<open>try\<close> block of \<open>addMovie\<close> (lines 142-227), branch by branch.\<close>

definition addMovie_try ::
  "'w transport \<Rightarrow> RadarrMovieOptions \<Rightarrow> 'w adapter \<Rightarrow> (error + RadarrMovie) \<times> 'w adapter" where
  "addMovie_try tr options st =
     (case getMovieByTmdbId tr (o_tmdbId options) st of
        (Inl e, st1) \<Rightarrow> (Inl e, st1)
      | (Inr movie, st1) \<Rightarrow>
          if m_downloaded movie then
            (Inr movie,
             log Info ''Title already exists and is available. Skipping add and returning success'' st1)
          else if truthy (m_id movie) \<and> \<not> m_monitored movie then
            (case axios_put tr ''/movie'' (update_body movie options) st1 of
               (Inl e, st2) \<Rightarrow> (Inl e, st2)
             | (Inr data, st2) \<Rightarrow>
                 if m_monitored data then
                   (Inr data,
                    log Debug ''Radarr update details''
                      (log Info ''Found existing title in Radarr and set it to monitored. Returning success'' st2))
                 else
                   (Inl (Error ''Failed to update existing movie in Radarr''),
                    log Err ''Failed to update existing movie in Radarr'' st2))
          else if truthy (m_id movie) then
            (Inr movie,
             log Info ''Movie is already monitored in Radarr. Skipping add and returning success'' st1)
          else
            (case axios_post tr ''/movie'' (create_body options) st1 of
               (Inl e, st2) \<Rightarrow> (Inl e, st2)
             | (Inr data, st2) \<Rightarrow>
                 if truthy (m_id data) then
                   (Inr data,
                    log Debug ''Radarr add details'' (log Info ''Radarr accepted request'' st2))
                 else
                   (Inl (Error ''Failed to add movie to Radarr''),
                    log Err ''Failed to add movie to Radarr'' st2)))"

text \<open>The \<open>catch\<close> of \<open>addMovie\<close> (lines 228-239) receives every error of the block.\<close>

definition addMovie ::
  "'w transport \<Rightarrow> RadarrMovieOptions \<Rightarrow> 'w adapter \<Rightarrow> (error + RadarrMovie) \<times> 'w adapter" where
  "addMovie tr options st =
     (case addMovie_try tr options st of
        (Inl e, st1) \<Rightarrow>
          (Inl (Error ''Failed to add movie to Radarr''),
           log Err ''Failed to add movie to Radarr. This might happen if the movie already exists, in which case you can safely ignore this error.'' st1)
      | (Inr movie, st1) \<Rightarrow> (Inr movie, st1))"

subsection \<open>getQueue\<close>

definition getQueue :: "'w transport \<Rightarrow> 'w adapter \<Rightarrow> (error + QueueItem list) \<times> 'w adapter" where
  "getQueue tr st =
     (case axios_get_queue tr ''/queue'' [] st of
        (Inl e, st1) \<Rightarrow> (Inl (Error (''[Radarr] Failed to retrieve queue: '' @ message e)), st1)
      | (Inr data, st1) \<Rightarrow> (Inr (qr_records data), st1))"

subsection \<open>getProfiles and the rolling fetch\<close>

text \<open>
  Modelled from the spec: when a cache entry is live is decided in server/lib/cache.ts,
  which is not among the sources. The spec speaks of a TTL window and of expiry: an entry
  stored with expiry \<open>t + ttl\<close> is live at the times before \<open>t + ttl\<close>. The clock is the
  argument \<open>now\<close>, in seconds.
\<close>

definition live_entry ::
  "'w adapter \<Rightarrow> cache_key \<Rightarrow> nat \<Rightarrow> RadarrProfile list option" where
  "live_entry st key now =
     (case cache st key of
        None \<Rightarrow> None
      | Some (v, expiry) \<Rightarrow> if now < expiry then Some v else None)"

text \<open>
  Modelled from the spec: \<open>ExternalAPI.getRolling\<close> (server/api/externalapi.ts) is not
  among the sources. The spec, 4.1: a rolling fetch computes a cache key from path and
  parameters; if a live entry exists, it returns it without a network call; otherwise it
  performs the request, stores the successful result under that key with the given TTL,
  and returns it; a failed fetch writes nothing. Glossary: a rolling fetch is a
  read-through cache fetch with a fixed TTL and no background refresh.
\<close>

definition getRolling ::
  "'w transport \<Rightarrow> string \<Rightarrow> params \<Rightarrow> nat \<Rightarrow> nat \<Rightarrow> 'w adapter \<Rightarrow>
     (error + RadarrProfile list) \<times> 'w adapter" where
  "getRolling tr path ps ttl now st =
     (case live_entry st (path, ps) now of
        Some v \<Rightarrow> (Inr v, st)
      | None \<Rightarrow>
          (case axios_get_profiles tr path ps st of
             (Inl e, st1) \<Rightarrow> (Inl e, st1)
           | (Inr data, st1) \<Rightarrow>
               (Inr data, st1\<lparr>cache := (cache st1)((path, ps) \<mapsto> (data, now + ttl))\<rparr>)))"

text \<open>\<open>getProfiles\<close> (lines 242-254); the absent parameters are the empty list.\<close>

definition getProfiles ::
  "'w transport \<Rightarrow> nat \<Rightarrow> 'w adapter \<Rightarrow> (error + RadarrProfile list) \<times> 'w adapter" where
  "getProfiles tr now st =
     (case getRolling tr ''/qualityProfile'' [] 3600 now st of
        (Inl e, st1) \<Rightarrow> (Inl (Error (''[Radarr] Failed to retrieve profiles: '' @ message e)), st1)
      | (Inr data, st1) \<Rightarrow> (Inr data, st1))"

subsection \<open>An example service\<close>

text \<open>
  A request for The Matrix (TMDb id 603), a resolved record for it with a chosen internal
  id, monitored flag and downloaded flag, a queue envelope with one job, and a scripted
  service: it answers every lookup with \<open>found\<close> and every write with \<open>written\<close>, and
  its state counts the requests it has answered, which it reports as the id of the one
  quality profile. \<open>fresh\<close> is an adapter that has sent nothing and cached nothing.
\<close>

definition matrix_options :: RadarrMovieOptions where
  "matrix_options =
     \<lparr> o_title = ''The Matrix'', o_qualityProfileId = 4, o_minimumAvailability = ''released'',
       o_profileId = 4, o_year = 1999, o_rootFolderPath = ''/movies'', o_tmdbId = 603,
       o_monitored = Some True, o_searchNow = Some True \<rparr>"

definition matrix :: "int option \<Rightarrow> bool \<Rightarrow> bool \<Rightarrow> RadarrMovie" where
  "matrix i mon dl =
     \<lparr> m_id = i, m_title = ''The Matrix'', m_isAvailable = True, m_monitored = mon,
       m_tmdbId = 603, m_imdbId = ''tt0133093'', m_titleSlug = ''603'', m_folderName = '''',
       m_path = '''', m_profileId = 1, m_qualityProfileId = 1, m_added = ''0001-01-01T00:00:00Z'',
       m_downloaded = dl, m_hasFile = dl \<rparr>"

definition demo_queue :: QueueResponse where
  "demo_queue =
     \<lparr> qr_page = 1, qr_pageSize = 10, qr_sortKey = ''timeleft'', qr_sortDirection = ''ascending'',
       qr_totalRecords = 1,
       qr_records =
         [\<lparr> q_movieId = 7, q_size = 1000, q_title = ''The Matrix'', q_sizeleft = 400,
            q_timeleft = ''00:10:00'', q_estimatedCompletionTime = ''2021-01-01T00:10:00Z'',
            q_status = ''downloading'', q_trackedDownloadStatus = ''ok'',
            q_trackedDownloadState = ''downloading'', q_downloadId = ''abc'',
            q_protocol = ''torrent'', q_downloadClient = ''qbit'', q_indexer = ''idx'',
            q_id = 12 \<rparr>] \<rparr>"

definition scripted :: "(error + RadarrMovie list) \<Rightarrow> (error + RadarrMovie) \<Rightarrow> nat transport" where
  "scripted found written =
     \<lparr> get_movie_list = (\<lambda>url ps w. (found, Suc w)),
       get_profile_list = (\<lambda>url ps w. (Inr [\<lparr> p_id = int w, p_name = ''HD-1080p'' \<rparr>], Suc w)),
       get_queue_response = (\<lambda>url ps w. (Inr demo_queue, Suc w)),
       put_movie = (\<lambda>url body w. (written, Suc w)),
       post_movie = (\<lambda>url body w. (written, Suc w)) \<rparr>"

definition fresh :: "nat adapter" where
  "fresh = \<lparr> world = 0, requests = [], logs = [], cache = Map.empty \<rparr>"

section \<open>Properties\<close>

subsection \<open>buildRadarrUrl\<close>

text \<open>
  C10. Whatever the settings, \<open>buildRadarrUrl\<close> without a path returns a text that ends
  with \<open>undefined\<close>: the text is scheme://hostname:port, then the base URL when there is
  one, then \<open>undefined\<close>. With a path, the same prefix is followed by the path as given.
\<close>

theorem buildRadarrUrl_path:
  "buildRadarrUrl rs None =
     ((if s_useSsl rs then ''https'' else ''http'') @ ''://'' @ s_hostname rs @ '':'' @
      toString (s_port rs) @ (case s_baseUrl rs of None \<Rightarrow> [] | Some b \<Rightarrow> b)) @ ''undefined'' \<and>
   suffix ''undefined'' (buildRadarrUrl rs None) \<and>
   buildRadarrUrl rs (Some p) =
     ((if s_useSsl rs then ''https'' else ''http'') @ ''://'' @ s_hostname rs @ '':'' @
      toString (s_port rs) @ (case s_baseUrl rs of None \<Rightarrow> [] | Some b \<Rightarrow> b)) @ p"
  by (simp add: buildRadarrUrl_def interpolate_def suffix_def)

text \<open>
  At the settings of a local service on port 7878 without TLS and without base URL.
\<close>

theorem buildRadarrUrl_path_witness:
  "buildRadarrUrl \<lparr> s_useSsl = False, s_hostname = ''localhost'', s_port = 7878, s_baseUrl = None \<rparr> None
     = ''http://localhost:7878undefined''"
  using buildRadarrUrl_path [of "\<lparr> s_useSsl = False, s_hostname = ''localhost'', s_port = 7878, s_baseUrl = None \<rparr>"]
  by (simp add: toString_def digit_chars.simps)

subsection \<open>getMovieByTmdbId\<close>

lemma toString_603: "toString 603 = ''603''"
  by (simp add: toString_def digit_chars.simps)

text \<open>
  C6. \<open>getMovieByTmdbId\<close> sends one lookup. When the answer is a non-empty array, it
  returns the first element. When the answer is the empty array, and when the request is
  rejected, it fails with the same error \<open>Movie not found\<close> and logs the same line: the
  caller cannot tell the two causes apart.
\<close>

theorem getMovieByTmdbId_first_or_not_found:
  "(get_movie_list tr ''/movie/lookup'' [(''term'', ''tmdb:'' @ toString i)] (world st) = (Inr (m # ms), w) \<longrightarrow>
      getMovieByTmdbId tr i st =
        (Inr m, st\<lparr>world := w, requests := requests st @ [Get ''/movie/lookup'' [(''term'', ''tmdb:'' @ toString i)]]\<rparr>)) \<and>
   (get_movie_list tr ''/movie/lookup'' [(''term'', ''tmdb:'' @ toString i)] (world st) = (Inr [], w) \<longrightarrow>
      getMovieByTmdbId tr i st =
        (Inl (Error ''Movie not found''),
         log Err ''Error retrieving movie by TMDb ID''
           (st\<lparr>world := w, requests := requests st @ [Get ''/movie/lookup'' [(''term'', ''tmdb:'' @ toString i)]]\<rparr>))) \<and>
   (get_movie_list tr ''/movie/lookup'' [(''term'', ''tmdb:'' @ toString i)] (world st) = (Inl e, w) \<longrightarrow>
      getMovieByTmdbId tr i st =
        (Inl (Error ''Movie not found''),
         log Err ''Error retrieving movie by TMDb ID''
           (st\<lparr>world := w, requests := requests st @ [Get ''/movie/lookup'' [(''term'', ''tmdb:'' @ toString i)]]\<rparr>)))"
  by (simp add: getMovieByTmdbId_def getMovieByTmdbId_try_def axios_get_movies_def lookup_term_def)

text \<open>
  Two candidates of which the first is returned; an empty answer; a refused connection.
\<close>

theorem getMovieByTmdbId_first_or_not_found_witness:
  "fst (getMovieByTmdbId (scripted (Inr [matrix (Some 7) True False, matrix (Some 8) True True]) (Inl (Error ''unused''))) 603 fresh)
     = Inr (matrix (Some 7) True False) \<and>
   fst (getMovieByTmdbId (scripted (Inr []) (Inl (Error ''unused''))) 603 fresh)
     = Inl (Error ''Movie not found'') \<and>
   fst (getMovieByTmdbId (scripted (Inl (Error ''connect ECONNREFUSED'')) (Inl (Error ''unused''))) 603 fresh)
     = Inl (Error ''Movie not found'')"
proof -
  let ?w = "Inl (Error ''unused'') :: error + RadarrMovie"
  have a: "get_movie_list (scripted (Inr [matrix (Some 7) True False, matrix (Some 8) True True]) ?w)
             ''/movie/lookup'' [(''term'', ''tmdb:'' @ toString 603)] (world fresh)
           = (Inr (matrix (Some 7) True False # [matrix (Some 8) True True]), 1)"
    by (simp add: scripted_def fresh_def)
  have b: "get_movie_list (scripted (Inr []) ?w)
             ''/movie/lookup'' [(''term'', ''tmdb:'' @ toString 603)] (world fresh) = (Inr [], 1)"
    by (simp add: scripted_def fresh_def)
  have c: "get_movie_list (scripted (Inl (Error ''connect ECONNREFUSED'')) ?w)
             ''/movie/lookup'' [(''term'', ''tmdb:'' @ toString 603)] (world fresh)
           = (Inl (Error ''connect ECONNREFUSED''), 1)"
    by (simp add: scripted_def fresh_def)
  from getMovieByTmdbId_first_or_not_found
         [of "scripted (Inr [matrix (Some 7) True False, matrix (Some 8) True True]) ?w" 603 fresh
             "matrix (Some 7) True False" "[matrix (Some 8) True True]" 1] a
  have "fst (getMovieByTmdbId (scripted (Inr [matrix (Some 7) True False, matrix (Some 8) True True]) ?w) 603 fresh)
          = Inr (matrix (Some 7) True False)" by simp
  moreover from getMovieByTmdbId_first_or_not_found [of "scripted (Inr []) ?w" 603 fresh _ _ 1] b
  have "fst (getMovieByTmdbId (scripted (Inr []) ?w) 603 fresh) = Inl (Error ''Movie not found'')"
    by simp
  moreover from getMovieByTmdbId_first_or_not_found
         [of "scripted (Inl (Error ''connect ECONNREFUSED'')) ?w" 603 fresh _ _ 1 "Error ''connect ECONNREFUSED''"] c
  have "fst (getMovieByTmdbId (scripted (Inl (Error ''connect ECONNREFUSED'')) ?w) 603 fresh)
          = Inl (Error ''Movie not found'')"
    by simp
  ultimately show ?thesis by simp
qed

text \<open>
  What \<open>addMovie\<close> sees of the resolution: the first candidate, or \<open>Movie not found\<close>.
\<close>

lemma resolve_found:
  assumes "get_movie_list tr ''/movie/lookup'' (lookup_term i) (world st) = (Inr (movie # rest), w)"
  shows "getMovieByTmdbId tr i st =
           (Inr movie, st\<lparr>world := w, requests := requests st @ [Get ''/movie/lookup'' (lookup_term i)]\<rparr>)"
  using assms by (simp add: getMovieByTmdbId_def getMovieByTmdbId_try_def axios_get_movies_def)

lemma resolve_failed:
  "fst (getMovieByTmdbId tr i st) = Inl e \<Longrightarrow> e = Error ''Movie not found''"
  by (auto simp: getMovieByTmdbId_def split: prod.splits sum.splits)

subsection \<open>addMovie: nothing to do\<close>

text \<open>
  C3. When the item resolved by the lookup is marked downloaded, \<open>addMovie\<close> returns
  that item unchanged; the lookup is the only request it sends, so no write request (PUT
  or POST) is issued.
\<close>

theorem addMovie_downloaded:
  assumes "get_movie_list tr ''/movie/lookup'' (lookup_term (o_tmdbId options)) (world st) = (Inr (movie # rest), w)"
    and "m_downloaded movie"
  shows "fst (addMovie tr options st) = Inr movie \<and>
         requests (snd (addMovie tr options st)) =
           requests st @ [Get ''/movie/lookup'' (lookup_term (o_tmdbId options))] \<and>
         filter is_write (requests (snd (addMovie tr options st))) = filter is_write (requests st)"
  using assms(2) by (simp add: addMovie_def addMovie_try_def resolve_found [OF assms(1)] log_def)

theorem addMovie_downloaded_witness:
  "fst (addMovie (scripted (Inr [matrix (Some 5) True True]) (Inl (Error ''unused''))) matrix_options fresh)
     = Inr (matrix (Some 5) True True) \<and>
   requests (snd (addMovie (scripted (Inr [matrix (Some 5) True True]) (Inl (Error ''unused''))) matrix_options fresh))
     = [Get ''/movie/lookup'' [(''term'', ''tmdb:603'')]]"
proof -
  let ?tr = "scripted (Inr [matrix (Some 5) True True]) (Inl (Error ''unused''))"
  have a: "get_movie_list ?tr ''/movie/lookup'' (lookup_term (o_tmdbId matrix_options)) (world fresh)
             = (Inr (matrix (Some 5) True True # []), 1)"
    by (simp add: scripted_def fresh_def)
  have b: "m_downloaded (matrix (Some 5) True True)"
    by (simp add: matrix_def)
  from addMovie_downloaded [OF a b] show ?thesis
    by (simp add: fresh_def lookup_term_def matrix_options_def toString_603)
qed

text \<open>
  C4. When the resolved item has a non-zero internal id, is not marked downloaded and is
  already monitored, \<open>addMovie\<close> returns that item unchanged; the lookup is the only
  request it sends, so no write request is issued.
\<close>

theorem addMovie_monitored:
  assumes "get_movie_list tr ''/movie/lookup'' (lookup_term (o_tmdbId options)) (world st) = (Inr (movie # rest), w)"
    and "\<not> m_downloaded movie" and "truthy (m_id movie)" and "m_monitored movie"
  shows "fst (addMovie tr options st) = Inr movie \<and>
         requests (snd (addMovie tr options st)) =
           requests st @ [Get ''/movie/lookup'' (lookup_term (o_tmdbId options))] \<and>
         filter is_write (requests (snd (addMovie tr options st))) = filter is_write (requests st)"
  using assms(2-) by (simp add: addMovie_def addMovie_try_def resolve_found [OF assms(1)] log_def)

theorem addMovie_monitored_witness:
  "fst (addMovie (scripted (Inr [matrix (Some 5) True False]) (Inl (Error ''unused''))) matrix_options fresh)
     = Inr (matrix (Some 5) True False) \<and>
   requests (snd (addMovie (scripted (Inr [matrix (Some 5) True False]) (Inl (Error ''unused''))) matrix_options fresh))
     = [Get ''/movie/lookup'' [(''term'', ''tmdb:603'')]]"
proof -
  let ?tr = "scripted (Inr [matrix (Some 5) True False]) (Inl (Error ''unused''))"
  have a: "get_movie_list ?tr ''/movie/lookup'' (lookup_term (o_tmdbId matrix_options)) (world fresh)
             = (Inr (matrix (Some 5) True False # []), 1)"
    by (simp add: scripted_def fresh_def)
  have b: "\<not> m_downloaded (matrix (Some 5) True False)"
    and c: "truthy (m_id (matrix (Some 5) True False))"
    and d: "m_monitored (matrix (Some 5) True False)"
    by (simp_all add: matrix_def truthy_def)
  from addMovie_monitored [OF a b c d] show ?thesis
    by (simp add: fresh_def lookup_term_def matrix_options_def toString_603)
qed

subsection \<open>addMovie: update\<close>

text \<open>
  C1, as amended. When the resolved item is not marked downloaded, has a non-zero
  internal id and is not monitored, \<open>addMovie\<close> sends an update (PUT) of the resolved
  record under the requested attributes. When the service answers the update with a
  record, the call returns that record if its monitored flag is true, and fails with an
  error if the flag is false, although the request itself succeeded. When the service
  rejects the update, the call fails.
\<close>

theorem addMovie_update:
  assumes "get_movie_list tr ''/movie/lookup'' (lookup_term (o_tmdbId options)) (world st) = (Inr (movie # rest), w1)"
    and "\<not> m_downloaded movie" and "truthy (m_id movie)" and "\<not> m_monitored movie"
    and "put_movie tr ''/movie'' (update_body movie options) w1 = (r, w2)"
  shows "requests (snd (addMovie tr options st)) =
           requests st @ [Get ''/movie/lookup'' (lookup_term (o_tmdbId options)),
                          Put ''/movie'' (update_body movie options)] \<and>
         fst (addMovie tr options st) =
           (case r of
              Inl e \<Rightarrow> Inl (Error ''Failed to add movie to Radarr'')
            | Inr data \<Rightarrow>
                if m_monitored data then Inr data else Inl (Error ''Failed to add movie to Radarr''))"
  using assms(2-) by (simp add: addMovie_def addMovie_try_def resolve_found [OF assms(1)] log_def axios_put_def split: sum.splits)

text \<open>
  An update answered with a monitored record, and one answered with an unmonitored one.
\<close>

theorem addMovie_update_witness:
  "fst (addMovie (scripted (Inr [matrix (Some 5) False False]) (Inr (matrix (Some 5) True False))) matrix_options fresh)
     = Inr (matrix (Some 5) True False) \<and>
   fst (addMovie (scripted (Inr [matrix (Some 5) False False]) (Inr (matrix (Some 5) False False))) matrix_options fresh)
     = Inl (Error ''Failed to add movie to Radarr'') \<and>
   requests (snd (addMovie (scripted (Inr [matrix (Some 5) False False]) (Inr (matrix (Some 5) False False))) matrix_options fresh))
     = [Get ''/movie/lookup'' [(''term'', ''tmdb:603'')],
        Put ''/movie'' (update_body (matrix (Some 5) False False) matrix_options)]"
proof -
  let ?m = "matrix (Some 5) False False"
  have b: "\<not> m_downloaded ?m" and c: "truthy (m_id ?m)" and d: "\<not> m_monitored ?m"
    by (simp_all add: matrix_def truthy_def)
  have a: "get_movie_list (scripted (Inr [?m]) r) ''/movie/lookup'' (lookup_term (o_tmdbId matrix_options)) (world fresh)
             = (Inr (?m # []), 1)" for r
    by (simp add: scripted_def fresh_def)
  have e: "put_movie (scripted (Inr [?m]) r) ''/movie'' (update_body ?m matrix_options) 1 = (r, 2)" for r
    by (simp add: scripted_def)
  from addMovie_update [OF a b c d e, of "Inr (matrix (Some 5) True False)"]
       addMovie_update [OF a b c d e, of "Inr (matrix (Some 5) False False)"]
  show ?thesis
    by (simp add: fresh_def lookup_term_def matrix_options_def toString_603 matrix_def)
qed

text \<open>
  C1 as stated, without the condition on the downloaded flag, fails: for a resolved item
  with internal id 5 that is not monitored and is marked downloaded, \<open>addMovie\<close> sends
  the lookup only, no update, and returns the resolved (unmonitored) item, although the
  service would have answered an update with a monitored record.
\<close>

theorem addMovie_downloaded_unmonitored_no_update:
  "truthy (m_id (matrix (Some 5) False True)) \<and>
   \<not> m_monitored (matrix (Some 5) False True) \<and>
   fst (getMovieByTmdbId (scripted (Inr [matrix (Some 5) False True]) (Inr (matrix (Some 5) True True))) 603 fresh)
     = Inr (matrix (Some 5) False True) \<and>
   o_tmdbId matrix_options = 603 \<and>
   fst (addMovie (scripted (Inr [matrix (Some 5) False True]) (Inr (matrix (Some 5) True True))) matrix_options fresh)
     = Inr (matrix (Some 5) False True) \<and>
   requests (snd (addMovie (scripted (Inr [matrix (Some 5) False True]) (Inr (matrix (Some 5) True True))) matrix_options fresh))
     = [Get ''/movie/lookup'' [(''term'', ''tmdb:603'')]]"
  by (simp add: addMovie_def addMovie_try_def getMovieByTmdbId_def getMovieByTmdbId_try_def
      axios_get_movies_def log_def scripted_def fresh_def lookup_term_def matrix_options_def
      matrix_def truthy_def toString_603)

subsection \<open>addMovie: create\<close>

text \<open>
  C2. When the lookup shows the item absent from the service (the resolved record is not
  marked downloaded and has no internal id: the field is missing or 0), \<open>addMovie\<close>
  sends a create (POST) of the requested attributes. The call returns the created record
  exactly when the service answers with a record that carries an assigned internal id
  (present and not 0); when the answered record lacks an id the call fails with an error,
  although the request itself succeeded. When the service rejects the create, the call
  fails.
\<close>

theorem addMovie_create:
  assumes "get_movie_list tr ''/movie/lookup'' (lookup_term (o_tmdbId options)) (world st) = (Inr (movie # rest), w1)"
    and "\<not> m_downloaded movie" and "\<not> truthy (m_id movie)"
    and "post_movie tr ''/movie'' (create_body options) w1 = (r, w2)"
  shows "requests (snd (addMovie tr options st)) =
           requests st @ [Get ''/movie/lookup'' (lookup_term (o_tmdbId options)),
                          Post ''/movie'' (create_body options)] \<and>
         fst (addMovie tr options st) =
           (case r of
              Inl e \<Rightarrow> Inl (Error ''Failed to add movie to Radarr'')
            | Inr data \<Rightarrow>
                (case m_id data of
                   None \<Rightarrow> Inl (Error ''Failed to add movie to Radarr'')
                 | Some n \<Rightarrow> if n = 0 then Inl (Error ''Failed to add movie to Radarr'') else Inr data))"
  using assms(2-) by (simp add: addMovie_def addMovie_try_def resolve_found [OF assms(1)] log_def axios_post_def truthy_def split: sum.splits option.splits)

text \<open>
  A create answered with a record of id 42, and one answered with a record without id.
\<close>

theorem addMovie_create_witness:
  "fst (addMovie (scripted (Inr [matrix None False False]) (Inr (matrix (Some 42) True False))) matrix_options fresh)
     = Inr (matrix (Some 42) True False) \<and>
   fst (addMovie (scripted (Inr [matrix None False False]) (Inr (matrix None True False))) matrix_options fresh)
     = Inl (Error ''Failed to add movie to Radarr'') \<and>
   requests (snd (addMovie (scripted (Inr [matrix None False False]) (Inr (matrix None True False))) matrix_options fresh))
     = [Get ''/movie/lookup'' [(''term'', ''tmdb:603'')], Post ''/movie'' (create_body matrix_options)]"
proof -
  let ?m = "matrix None False False"
  have b: "\<not> m_downloaded ?m" and c: "\<not> truthy (m_id ?m)"
    by (simp_all add: matrix_def truthy_def)
  have a: "get_movie_list (scripted (Inr [?m]) r) ''/movie/lookup'' (lookup_term (o_tmdbId matrix_options)) (world fresh)
             = (Inr (?m # []), 1)" for r
    by (simp add: scripted_def fresh_def)
  have e: "post_movie (scripted (Inr [?m]) r) ''/movie'' (create_body matrix_options) 1 = (r, 2)" for r
    by (simp add: scripted_def)
  from addMovie_create [OF a b c e, of "Inr (matrix (Some 42) True False)"]
       addMovie_create [OF a b c e, of "Inr (matrix None True False)"]
  show ?thesis
    by (simp add: fresh_def lookup_term_def matrix_options_def toString_603 matrix_def)
qed

text \<open>
  C7. The scenario: the lookup for TMDb id 603 resolves to an item with id 0 that is
  neither downloaded nor monitored, and the service answers the create with a record of
  id 42. Then \<open>addMovie\<close> sends the lookup and a create (POST), no update (PUT), and
  returns the record with id 42.
\<close>

theorem addMovie_scenario:
  assumes "o_tmdbId options = 603"
    and "get_movie_list tr ''/movie/lookup'' [(''term'', ''tmdb:603'')] (world st) = (Inr (movie # rest), w1)"
    and "m_id movie = Some 0" and "m_tmdbId movie = 603"
    and "\<not> m_downloaded movie" and "\<not> m_monitored movie"
    and "post_movie tr ''/movie'' (create_body options) w1 = (Inr data, w2)"
    and "m_id data = Some 42"
  shows "fst (addMovie tr options st) = Inr data \<and>
         requests (snd (addMovie tr options st)) =
           requests st @ [Get ''/movie/lookup'' [(''term'', ''tmdb:603'')],
                          Post ''/movie'' (create_body options)]"
proof -
  have tm: "lookup_term (o_tmdbId options) = [(''term'', ''tmdb:603'')]"
    by (simp add: lookup_term_def assms(1) toString_603)
  have found: "getMovieByTmdbId tr (o_tmdbId options) st =
      (Inr movie, st\<lparr>world := w1, requests := requests st @ [Get ''/movie/lookup'' [(''term'', ''tmdb:603'')]]\<rparr>)"
    using resolve_found [of tr "o_tmdbId options" st movie rest w1] assms(2) by (simp add: tm)
  show ?thesis
    using assms(3-) by (simp add: addMovie_def addMovie_try_def found log_def axios_post_def truthy_def)
qed

theorem addMovie_scenario_witness:
  "fst (addMovie (scripted (Inr [matrix (Some 0) False False]) (Inr (matrix (Some 42) True False))) matrix_options fresh)
     = Inr (matrix (Some 42) True False) \<and>
   m_id (matrix (Some 42) True False) = Some 42 \<and>
   requests (snd (addMovie (scripted (Inr [matrix (Some 0) False False]) (Inr (matrix (Some 42) True False))) matrix_options fresh))
     = [Get ''/movie/lookup'' [(''term'', ''tmdb:603'')], Post ''/movie'' (create_body matrix_options)]"
proof -
  let ?m = "matrix (Some 0) False False"
  let ?d = "matrix (Some 42) True False"
  let ?tr = "scripted (Inr [?m]) (Inr ?d)"
  have o: "o_tmdbId matrix_options = 603" by (simp add: matrix_options_def)
  have a: "get_movie_list ?tr ''/movie/lookup'' [(''term'', ''tmdb:603'')] (world fresh) = (Inr (?m # []), 1)"
    by (simp add: scripted_def fresh_def)
  have b: "m_id ?m = Some 0" and c: "m_tmdbId ?m = 603" and d: "\<not> m_downloaded ?m"
    and e: "\<not> m_monitored ?m" and g: "m_id ?d = Some 42"
    by (simp_all add: matrix_def)
  have f: "post_movie ?tr ''/movie'' (create_body matrix_options) 1 = (Inr ?d, 2)"
    by (simp add: scripted_def)
  from addMovie_scenario [OF o a b c d e f g] show ?thesis
    by (simp add: fresh_def g)
qed

subsection \<open>addMovie: the lookup fails\<close>

text \<open>
  C5, as amended. When the resolution of the external id fails (its error is always
  \<open>Movie not found\<close>), \<open>addMovie\<close> does not hand that error to its caller: the \<open>catch\<close>
  of \<open>addMovie\<close> receives it and the call fails with the generic error
  \<open>Failed to add movie to Radarr\<close>. The adapter is left as the resolution left it, but for
  the one line that the \<open>catch\<close> logs: no request is sent beyond the lookup.
\<close>

theorem addMovie_lookup_failure:
  assumes "fst (getMovieByTmdbId tr (o_tmdbId options) st) = Inl e"
  shows "e = Error ''Movie not found'' \<and>
         fst (addMovie tr options st) = Inl (Error ''Failed to add movie to Radarr'') \<and>
         fst (addMovie tr options st) \<noteq> Inl e \<and>
         snd (addMovie tr options st) =
           log Err ''Failed to add movie to Radarr. This might happen if the movie already exists, in which case you can safely ignore this error.''
             (snd (getMovieByTmdbId tr (o_tmdbId options) st)) \<and>
         requests (snd (addMovie tr options st)) = requests (snd (getMovieByTmdbId tr (o_tmdbId options) st))"
proof -
  obtain r st1 where res: "getMovieByTmdbId tr (o_tmdbId options) st = (r, st1)"
    by (cases "getMovieByTmdbId tr (o_tmdbId options) st")
  from assms res have r: "r = Inl e"
    by simp
  have e: "e = Error ''Movie not found''"
    by (rule resolve_failed [OF assms])
  have tried: "addMovie_try tr options st = (Inl e, st1)"
    by (simp add: addMovie_try_def res r)
  show ?thesis
    by (simp add: addMovie_def tried res e log_def)
qed

theorem addMovie_lookup_failure_witness:
  "fst (getMovieByTmdbId (scripted (Inr []) (Inl (Error ''unused''))) (o_tmdbId matrix_options) fresh)
     = Inl (Error ''Movie not found'') \<and>
   fst (addMovie (scripted (Inr []) (Inl (Error ''unused''))) matrix_options fresh)
     = Inl (Error ''Failed to add movie to Radarr'') \<and>
   requests (snd (addMovie (scripted (Inr []) (Inl (Error ''unused''))) matrix_options fresh))
     = [Get ''/movie/lookup'' [(''term'', ''tmdb:603'')]] \<and>
   logs (snd (addMovie (scripted (Inr []) (Inl (Error ''unused''))) matrix_options fresh))
     = [(Err, ''Error retrieving movie by TMDb ID''),
        (Err, ''Failed to add movie to Radarr. This might happen if the movie already exists, in which case you can safely ignore this error.'')]"
proof -
  let ?tr = "scripted (Inr []) (Inl (Error ''unused''))"
  have a: "getMovieByTmdbId ?tr (o_tmdbId matrix_options) fresh
             = (Inl (Error ''Movie not found''),
                \<lparr> world = 1, requests = [Get ''/movie/lookup'' [(''term'', ''tmdb:603'')]],
                  logs = [(Err, ''Error retrieving movie by TMDb ID'')], cache = Map.empty \<rparr>)"
    by (simp add: getMovieByTmdbId_def getMovieByTmdbId_try_def axios_get_movies_def log_def
        scripted_def fresh_def lookup_term_def matrix_options_def toString_603)
  have b: "fst (getMovieByTmdbId ?tr (o_tmdbId matrix_options) fresh) = Inl (Error ''Movie not found'')"
    by (simp add: a)
  from addMovie_lookup_failure [OF b] show ?thesis by (simp add: a log_def)
qed

text \<open>
  C5 as stated fails: for a lookup answered with the empty array, the resolution fails
  with \<open>Movie not found\<close> and the caller of \<open>addMovie\<close> observes a different error.
\<close>

theorem addMovie_lookup_failure_not_propagated:
  "fst (getMovieByTmdbId (scripted (Inr []) (Inl (Error ''unused''))) 603 fresh)
     = Inl (Error ''Movie not found'') \<and>
   o_tmdbId matrix_options = 603 \<and>
   fst (addMovie (scripted (Inr []) (Inl (Error ''unused''))) matrix_options fresh)
     = Inl (Error ''Failed to add movie to Radarr'') \<and>
   fst (addMovie (scripted (Inr []) (Inl (Error ''unused''))) matrix_options fresh)
     \<noteq> Inl (Error ''Movie not found'')"
  by (simp add: addMovie_def addMovie_try_def getMovieByTmdbId_def getMovieByTmdbId_try_def
      axios_get_movies_def log_def scripted_def fresh_def lookup_term_def matrix_options_def)

subsection \<open>getQueue\<close>

text \<open>
  C8. For every queue envelope of page, page size, sort key, sort direction, total and
  records that the service answers, \<open>getQueue\<close> returns the records and nothing of the
  pagination fields.
\<close>

theorem getQueue_records:
  assumes "get_queue_response tr ''/queue'' [] (world st) =
             (Inr \<lparr> qr_page = pg, qr_pageSize = sz, qr_sortKey = k, qr_sortDirection = d,
                    qr_totalRecords = n, qr_records = recs \<rparr>, w)"
  shows "getQueue tr st = (Inr recs, st\<lparr>world := w, requests := requests st @ [Get ''/queue'' []]\<rparr>)"
  using assms by (simp add: getQueue_def axios_get_queue_def)

theorem getQueue_records_witness:
  "fst (getQueue (scripted (Inr []) (Inl (Error ''unused''))) fresh) = Inr (qr_records demo_queue) \<and>
   length (qr_records demo_queue) = 1"
proof -
  let ?tr = "scripted (Inr []) (Inl (Error ''unused''))"
  have a: "get_queue_response ?tr ''/queue'' [] (world fresh) =
     (Inr \<lparr> qr_page = qr_page demo_queue, qr_pageSize = qr_pageSize demo_queue,
            qr_sortKey = qr_sortKey demo_queue, qr_sortDirection = qr_sortDirection demo_queue,
            qr_totalRecords = qr_totalRecords demo_queue, qr_records = qr_records demo_queue \<rparr>, 1)"
    by (simp add: scripted_def fresh_def demo_queue_def)
  from getQueue_records [OF a] show ?thesis by (simp add: demo_queue_def)
qed

subsection \<open>getProfiles\<close>

text \<open>
  C9. Let a first call of \<open>getProfiles\<close> at time \<open>t1\<close> find no live entry and fetch the
  profiles \<open>ps\<close> successfully, with one request. A second call at a time \<open>t2\<close> within
  the 3600 seconds after \<open>t1\<close> returns \<open>ps\<close> and leaves the adapter state as it was: it
  sends no request, whatever the service would answer now. A second call at or after
  \<open>t1 + 3600\<close> sends a request, and when it succeeds the cache holds the fetched value
  with a new expiry.
\<close>

theorem getProfiles_rolling:
  assumes "live_entry st0 (''/qualityProfile'', []) t1 = None"
    and "getProfiles tr t1 st0 = (Inr ps, st1)"
  shows "requests st1 = requests st0 @ [Get ''/qualityProfile'' []] \<and>
         (t2 < t1 + 3600 \<longrightarrow> getProfiles tr t2 st1 = (Inr ps, st1)) \<and>
         (t1 + 3600 \<le> t2 \<longrightarrow>
            requests (snd (getProfiles tr t2 st1)) = requests st1 @ [Get ''/qualityProfile'' []] \<and>
            (\<forall>ps'. fst (getProfiles tr t2 st1) = Inr ps' \<longrightarrow>
               cache (snd (getProfiles tr t2 st1)) (''/qualityProfile'', []) = Some (ps', t2 + 3600)))"
proof -
  obtain r w where net: "get_profile_list tr ''/qualityProfile'' [] (world st0) = (r, w)"
    by (cases "get_profile_list tr ''/qualityProfile'' [] (world st0)")
  from assms net have st1:
    "st1 = st0\<lparr>world := w, requests := requests st0 @ [Get ''/qualityProfile'' []],
               cache := (cache st0)((''/qualityProfile'', []) \<mapsto> (ps, t1 + 3600))\<rparr>"
    by (cases r) (auto simp: getProfiles_def getRolling_def axios_get_profiles_def)
  have entry: "cache st1 (''/qualityProfile'', []) = Some (ps, t1 + 3600)"
    by (simp add: st1)
  have hit: "getProfiles tr t2 st1 = (Inr ps, st1)" if "t2 < t1 + 3600"
    using that by (simp add: getProfiles_def getRolling_def live_entry_def entry)
  have expired: "live_entry st1 (''/qualityProfile'', []) t2 = None" if "t1 + 3600 \<le> t2"
    using that by (simp add: live_entry_def entry)
  obtain r2 w2 where net2: "get_profile_list tr ''/qualityProfile'' [] (world st1) = (r2, w2)"
    by (cases "get_profile_list tr ''/qualityProfile'' [] (world st1)")
  have miss: "requests (snd (getProfiles tr t2 st1)) = requests st1 @ [Get ''/qualityProfile'' []] \<and>
      (\<forall>ps'. fst (getProfiles tr t2 st1) = Inr ps' \<longrightarrow>
         cache (snd (getProfiles tr t2 st1)) (''/qualityProfile'', []) = Some (ps', t2 + 3600))"
    if "t1 + 3600 \<le> t2"
    using expired [OF that] net2
    by (cases r2) (simp_all add: getProfiles_def getRolling_def axios_get_profiles_def)
  show ?thesis using hit miss by (simp add: st1)
qed

text \<open>
  A fetch at second 100; a call at second 3699 is served from the cache, a call at
  second 3700 fetches again and stores what the service answers then.
\<close>

theorem getProfiles_rolling_witness:
  "getProfiles (scripted (Inr []) (Inl (Error ''unused''))) 3699
       (snd (getProfiles (scripted (Inr []) (Inl (Error ''unused''))) 100 fresh))
     = (Inr [\<lparr> p_id = 0, p_name = ''HD-1080p'' \<rparr>],
        snd (getProfiles (scripted (Inr []) (Inl (Error ''unused''))) 100 fresh)) \<and>
   requests (snd (getProfiles (scripted (Inr []) (Inl (Error ''unused''))) 100 fresh))
     = [Get ''/qualityProfile'' []] \<and>
   requests (snd (getProfiles (scripted (Inr []) (Inl (Error ''unused''))) 3700
       (snd (getProfiles (scripted (Inr []) (Inl (Error ''unused''))) 100 fresh))))
     = [Get ''/qualityProfile'' [], Get ''/qualityProfile'' []] \<and>
   cache (snd (getProfiles (scripted (Inr []) (Inl (Error ''unused''))) 3700
       (snd (getProfiles (scripted (Inr []) (Inl (Error ''unused''))) 100 fresh))))
       (''/qualityProfile'', [])
     = Some ([\<lparr> p_id = 1, p_name = ''HD-1080p'' \<rparr>], 7300)"
proof -
  let ?tr = "scripted (Inr []) (Inl (Error ''unused''))"
  let ?st1 = "\<lparr> world = 1, requests = [Get ''/qualityProfile'' []], logs = [],
                cache = Map.empty((''/qualityProfile'', []) \<mapsto> ([\<lparr> p_id = 0, p_name = ''HD-1080p'' \<rparr>], 3700)) \<rparr>"
  have a: "live_entry fresh (''/qualityProfile'', []) 100 = None"
    by (simp add: live_entry_def fresh_def)
  have b: "getProfiles ?tr 100 fresh = (Inr [\<lparr> p_id = 0, p_name = ''HD-1080p'' \<rparr>], ?st1)"
    by (simp add: getProfiles_def getRolling_def axios_get_profiles_def live_entry_def
        scripted_def fresh_def)
  have c: "fst (getProfiles ?tr 3700 ?st1) = Inr [\<lparr> p_id = 1, p_name = ''HD-1080p'' \<rparr>]"
    by (simp add: getProfiles_def getRolling_def axios_get_profiles_def live_entry_def scripted_def)
  from getProfiles_rolling [OF a b, of 3699] getProfiles_rolling [OF a b, of 3700] c
  show ?thesis by (simp add: b)
qed

end
